theory Spec2Isabelle
  imports Complex_Main
begin

section \<open>Stress detection: normalisation, fusion and classification\<close>

text \<open>
  The development embeds the decision logic of two Python modules:
  \<^item> \<^verbatim>\<open>whatsappfinal.py\<close>: class \<^verbatim>\<open>IntegratedStressDetector\<close> (continuous clip-linear
    normalisation of the audio descriptors, weighted fusion of the voice and motion levels,
    severity bands, the panic / high-stress decision and the action taken on it);
  \<^item> \<^verbatim>\<open>gemini_chatbot.py\<close>: the indicator-counting detectors \<^verbatim>\<open>detect_stress\<close> and
    \<^verbatim>\<open>analyze_motion_data\<close>, and the rate computation of \<^verbatim>\<open>stop_motion_tracking\<close>.

  Python \<^verbatim>\<open>float\<close> values are modelled as \<^typ>\<open>real\<close>: arithmetic and comparisons are exact,
  and the decimal literals of the source (\<^verbatim>\<open>0.4\<close>, \<^verbatim>\<open>0.7\<close>, ...) denote the decimal
  fractions they spell. The fusion formula is modelled a second time with the rounding of
  binary64 arithmetic (\<open>combined_level_binary64\<close>), for the properties that are about rounding.
  Infinities and NaN are outside the model.
  Python \<^verbatim>\<open>int\<close> is \<^typ>\<open>int\<close>. Exceptions are values: a computation that can raise returns
  \<open>py_exception + 'a\<close>, with \<open>Inl\<close> for the raised exception.
\<close>

subsection \<open>Python values\<close>

datatype py_exception = AttributeError | ZeroDivisionError | OtherException string

text \<open>
  The built-ins \<^verbatim>\<open>max(a, b)\<close> and \<^verbatim>\<open>min(a, b)\<close> return their first argument unless the
  second one is strictly greater (strictly smaller).
\<close>

definition py_max :: "real \<Rightarrow> real \<Rightarrow> real" where
  "py_max a b = (if b > a then b else a)"

definition py_min :: "real \<Rightarrow> real \<Rightarrow> real" where
  "py_min a b = (if b < a then b else a)"

text \<open>True division \<^verbatim>\<open>a / b\<close> raises \<^verbatim>\<open>ZeroDivisionError\<close> when the divisor is zero.\<close>

definition py_truediv :: "real \<Rightarrow> real \<Rightarrow> py_exception + real" where
  "py_truediv a b = (if b = 0 then Inl ZeroDivisionError else Inr (a / b))"

subsection \<open>\<^verbatim>\<open>whatsappfinal.py\<close>: the integrated detector\<close>

text \<open>
  The dictionary \<^verbatim>\<open>self.results\<close>. Its keys are fixed by \<^verbatim>\<open>__init__\<close>; the fields carry
  the prefix \<open>r_\<close> because three of the keys are also parameter names of
  \<^verbatim>\<open>analyze_combined_stress\<close>.
\<close>

record 'loc results =
  r_audio_stress_detected :: bool
  r_motion_stress_detected :: bool
  r_audio_stress_level :: real
  r_motion_stress_level :: real
  r_combined_stress_level :: real
  r_panic_detected :: bool
  r_location_data :: "'loc option"

text \<open>
  The attributes of an \<^verbatim>\<open>IntegratedStressDetector\<close> that the analysis reads.
  \<open>motion_detector_stress_threshold\<close> is \<^verbatim>\<open>self.motion_detector.stress_threshold\<close>, the
  value \<^verbatim>\<open>stress_threshold=0.5\<close> handed to the \<^verbatim>\<open>CameraMotionDetector\<close> constructor.
\<close>

record 'loc detector =
  motion_detector_stress_threshold :: real
  results :: "'loc results"
  panic_threshold :: real
  high_stress_threshold :: real

definition IntegratedStressDetector_init :: "'loc detector" where
  "IntegratedStressDetector_init =
     \<lparr> motion_detector_stress_threshold = 0.5,
       results = \<lparr> r_audio_stress_detected = False,
                   r_motion_stress_detected = False,
                   r_audio_stress_level = 0.0,
                   r_motion_stress_level = 0.0,
                   r_combined_stress_level = 0.0,
                   r_panic_detected = False,
                   r_location_data = None \<rparr>,
       panic_threshold = 0.7,
       high_stress_threshold = 0.5 \<rparr>"

text \<open>
  The conditional expression that names the severity band of a level. It occurs twice in the
  source with the same cutoffs and the same strings: for \<^verbatim>\<open>combined_level\<close> in
  \<^verbatim>\<open>analyze_combined_stress\<close> and for \<^verbatim>\<open>overall_stress\<close> in \<^verbatim>\<open>detect_stress\<close>.
\<close>

definition description_of :: "real \<Rightarrow> string" where
  "description_of level =
     (if level < 0.3 then ''Calm''
      else if level < 0.5 then ''Mild Stress''
      else if level < 0.7 then ''Moderate Stress''
      else if level < 0.9 then ''High Stress''
      else ''Panic'')"

definition analyze_combined_stress ::
  "'loc detector \<Rightarrow> bool \<Rightarrow> real \<Rightarrow> real \<Rightarrow> bool \<times> bool \<times> real \<times> string" where
  "analyze_combined_stress self audio_stress_detected audio_stress_level motion_stress_level =
     (let combined_level = (audio_stress_level * 0.4) + (motion_stress_level * 0.6);
          is_panic = (combined_level \<ge> panic_threshold self);
          is_high_stress = (combined_level \<ge> high_stress_threshold self);
          description = description_of combined_level
      in (is_panic, is_high_stress, combined_level, description))"

text \<open>The components of the returned tuple \<^verbatim>\<open>(is_panic, is_high_stress, combined_level, description)\<close>.\<close>

definition is_panic_of :: "bool \<times> bool \<times> real \<times> string \<Rightarrow> bool" where
  "is_panic_of t = fst t"

definition is_high_stress_of :: "bool \<times> bool \<times> real \<times> string \<Rightarrow> bool" where
  "is_high_stress_of t = fst (snd t)"

definition combined_level_of :: "bool \<times> bool \<times> real \<times> string \<Rightarrow> real" where
  "combined_level_of t = fst (snd (snd t))"

definition combined_description_of :: "bool \<times> bool \<times> real \<times> string \<Rightarrow> string" where
  "combined_description_of t = snd (snd (snd t))"

text \<open>
  The dictionary built by \<^verbatim>\<open>extract_features\<close>: the window means of the four acoustic
  descriptors.
\<close>

record features =
  pitch_mean :: real
  energy_mean :: real
  zcr_mean :: real
  spectral_centroid_mean :: real

text \<open>
  The outcome of a call of \<^verbatim>\<open>extract_features\<close>, as the callers see it: the call raises
  (\<open>Inl\<close>), returns \<^verbatim>\<open>None\<close> (\<open>Inr None\<close>) or returns the dictionary. The computation of the
  descriptors from the waveform (librosa) is not part of the model.

  In \<^verbatim>\<open>whatsappfinal.py\<close> the call is written \<^verbatim>\<open>self.extract_features(audio_data, sample_rate)\<close>,
  and the class defines no attribute of that name: on an instance of the class as it is
  written, the attribute lookup raises and the outcome is \<open>Inl AttributeError\<close>.
\<close>

type_synonym extraction = "py_exception + features option"

definition extract_features_as_written :: extraction where
  "extract_features_as_written = Inl AttributeError"

text \<open>The four contributions computed in the body of \<^verbatim>\<open>detect_stress\<close> (the method).\<close>

definition pitch_stress :: "features \<Rightarrow> real" where
  "pitch_stress f = py_min 1.0 (py_max 0.0 ((pitch_mean f - 130) / 50))"

definition energy_stress :: "features \<Rightarrow> real" where
  "energy_stress f = py_min 1.0 (py_max 0.0 ((energy_mean f - 0.5) / 0.5))"

definition zcr_stress :: "features \<Rightarrow> real" where
  "zcr_stress f = py_min 1.0 (py_max 0.0 ((zcr_mean f - 0.08) / 0.12))"

definition spectral_stress :: "features \<Rightarrow> real" where
  "spectral_stress f = py_min 1.0 (py_max 0.0 ((spectral_centroid_mean f - 1800) / 700))"

text \<open>
  The method \<^verbatim>\<open>IntegratedStressDetector.detect_stress\<close>. Its argument is the outcome of the
  feature extraction; the whole body runs inside \<^verbatim>\<open>try\<close>, and the handler of
  \<^verbatim>\<open>except Exception\<close> returns the error triple. After the extraction nothing else in the
  body raises: the divisors are non-zero literals and \<^verbatim>\<open>len(stress_levels)\<close> is 4.
\<close>

definition IntegratedStressDetector_detect_stress :: "extraction \<Rightarrow> bool \<times> real \<times> string" where
  "IntegratedStressDetector_detect_stress extraction =
     (case extraction of
        Inl e \<Rightarrow> (False, 0.0, ''Error in stress detection'')
      | Inr None \<Rightarrow> (False, 0.0, ''No audio features detected'')
      | Inr (Some f) \<Rightarrow>
          (let stress_levels = [pitch_stress f, energy_stress f, zcr_stress f, spectral_stress f];
               overall_stress = sum_list stress_levels / real (length stress_levels);
               is_stressed = (overall_stress > 0.3);
               description = description_of overall_stress
           in (is_stressed, overall_stress, description)))"

text \<open>
  Calls of the collaborators that resolve the location and open the map, in the order in
  which they are made. \<open>Handle_stress_detection b\<close> records the call
  \<^verbatim>\<open>self._handle_stress_detection(b)\<close> itself.
\<close>

datatype 'loc call =
    Handle_stress_detection bool
  | Get_location_by_geocoder
  | Open_google_maps 'loc

text \<open>
  \<^verbatim>\<open>_handle_stress_detection\<close>. \<open>location\<close> is what \<^verbatim>\<open>get_location_by_geocoder()\<close> returns
  (a non-empty dictionary or \<^verbatim>\<open>None\<close>); the result of \<^verbatim>\<open>open_google_maps\<close> and the value of
  \<^verbatim>\<open>is_panic\<close> only select the message printed. Printing is not modelled.
\<close>

definition handle_stress_detection ::
  "'loc results \<Rightarrow> bool \<Rightarrow> 'loc option \<Rightarrow> 'loc results \<times> 'loc call list" where
  "handle_stress_detection res is_panic location =
     (let location_data = location;
          res' = res\<lparr>r_location_data := location_data\<rparr>
      in case location_data of
           Some l \<Rightarrow> (res', [Get_location_by_geocoder, Open_google_maps l])
         | None \<Rightarrow> (res', [Get_location_by_geocoder]))"

text \<open>
  \<^verbatim>\<open>run_detection\<close>, from the analysis of the two closed windows on (line 116). The
  arguments stand for what the collaborators deliver: the outcome of the feature extraction,
  the pair returned by \<^verbatim>\<open>self.motion_detector.analyze_stress()\<close> and the location returned by
  \<^verbatim>\<open>get_location_by_geocoder()\<close>. The result is the updated \<^verbatim>\<open>self.results\<close> and the calls
  made by the action branch.
\<close>

definition run_detection ::
  "'loc detector \<Rightarrow> extraction \<Rightarrow> real \<times> string \<Rightarrow> 'loc option \<Rightarrow> 'loc results \<times> 'loc call list" where
  "run_detection self extraction motion_analysis location =
     (case IntegratedStressDetector_detect_stress extraction of
        (audio_stress_detected, audio_stress_level, audio_description) \<Rightarrow>
     (case motion_analysis of
        (motion_stress_level, motion_description) \<Rightarrow>
     (case analyze_combined_stress self audio_stress_detected audio_stress_level motion_stress_level of
        (is_panic, is_high_stress, combined_level, combined_description) \<Rightarrow>
     (let res = (results self)
            \<lparr> r_audio_stress_detected := audio_stress_detected,
              r_motion_stress_detected := (motion_stress_level > motion_detector_stress_threshold self),
              r_audio_stress_level := audio_stress_level,
              r_motion_stress_level := motion_stress_level,
              r_combined_stress_level := combined_level,
              r_panic_detected := is_panic \<rparr>
      in if is_panic then
           (case handle_stress_detection res True location of
              (res', calls) \<Rightarrow> (res', Handle_stress_detection True # calls))
         else if is_high_stress then
           (case handle_stress_detection res False location of
              (res', calls) \<Rightarrow> (res', Handle_stress_detection False # calls))
         else (res, [])))))"

subsection \<open>\<^verbatim>\<open>gemini_chatbot.py\<close>: the indicator-counting detectors\<close>

text \<open>
  The counter \<^verbatim>\<open>stress_indicators\<close> of \<^verbatim>\<open>detect_stress\<close> after the four checks: it starts
  at 0 and each check that succeeds adds 1.
\<close>

definition detect_stress_indicators :: "features \<Rightarrow> int" where
  "detect_stress_indicators f =
     (let stress_indicators = 0;
          stress_indicators = (if pitch_mean f > 150 then stress_indicators + 1 else stress_indicators);
          stress_indicators = (if energy_mean f > 0.7 then stress_indicators + 1 else stress_indicators);
          stress_indicators = (if zcr_mean f > 0.1 then stress_indicators + 1 else stress_indicators);
          stress_indicators = (if spectral_centroid_mean f > 2000 then stress_indicators + 1 else stress_indicators)
      in stress_indicators)"

text \<open>
  The function \<^verbatim>\<open>detect_stress\<close>: \<^verbatim>\<open>False\<close> when the extraction raised or returned
  \<^verbatim>\<open>None\<close>, otherwise whether at least two checks succeeded.
\<close>

definition detect_stress :: "extraction \<Rightarrow> bool" where
  "detect_stress extraction =
     (case extraction of
        Inl e \<Rightarrow> False
      | Inr None \<Rightarrow> False
      | Inr (Some f) \<Rightarrow> (let is_stressed = (detect_stress_indicators f \<ge> 2) in is_stressed))"

text \<open>
  The global dictionary \<^verbatim>\<open>motion_data\<close> as \<^verbatim>\<open>start_motion_tracking\<close> creates it and the
  listeners update it. Times are points of the time axis, in seconds; the difference of two
  of them is what \<^verbatim>\<open>total_seconds()\<close> returns.
\<close>

record motion_data =
  mouse_movements :: int
  mouse_clicks :: int
  key_presses :: int
  start_time :: real
  end_time :: "real option"

text \<open>The dictionary after \<^verbatim>\<open>stop_motion_tracking\<close> has added the three rates.\<close>

record motion_rates = motion_data +
  mouse_movement_rate :: real
  mouse_click_rate :: real
  key_press_rate :: real

text \<open>
  A conditional expression \<^verbatim>\<open>count / duration if duration > 0 else 0\<close>: the division is
  evaluated only when the condition holds.
\<close>

definition rate :: "int \<Rightarrow> real \<Rightarrow> py_exception + real" where
  "rate count duration = (if duration > 0 then py_truediv (real_of_int count) duration else Inr 0)"

text \<open>
  \<^verbatim>\<open>stop_motion_tracking\<close>; \<open>now\<close> is the reading of \<^verbatim>\<open>datetime.now()\<close>. An exception raised by
  one of the three assignments leaves the function.
\<close>

definition stop_motion_tracking :: "motion_data \<Rightarrow> real \<Rightarrow> py_exception + motion_rates" where
  "stop_motion_tracking md now =
     (let md' = md\<lparr>end_time := Some now\<rparr>;
          duration = now - start_time md'
      in case rate (mouse_movements md') duration of
           Inl e \<Rightarrow> Inl e
         | Inr movement_rate \<Rightarrow>
       (case rate (mouse_clicks md') duration of
           Inl e \<Rightarrow> Inl e
         | Inr click_rate \<Rightarrow>
       (case rate (key_presses md') duration of
           Inl e \<Rightarrow> Inl e
         | Inr keypress_rate \<Rightarrow>
             Inr (motion_data.extend md'
                    \<lparr> mouse_movement_rate = movement_rate,
                      mouse_click_rate = click_rate,
                      key_press_rate = keypress_rate \<rparr>))))"

text \<open>The counter \<^verbatim>\<open>stress_indicators\<close> of \<^verbatim>\<open>analyze_motion_data\<close> after its three checks.\<close>

definition analyze_motion_data_indicators :: "motion_rates \<Rightarrow> int" where
  "analyze_motion_data_indicators motion =
     (let high_movement_threshold = 10;
          high_click_threshold = 2;
          high_keypress_threshold = 5;
          stress_indicators = 0;
          stress_indicators = (if mouse_movement_rate motion > high_movement_threshold
                               then stress_indicators + 1 else stress_indicators);
          stress_indicators = (if mouse_click_rate motion > high_click_threshold
                               then stress_indicators + 1 else stress_indicators);
          stress_indicators = (if key_press_rate motion > high_keypress_threshold
                               then stress_indicators + 1 else stress_indicators)
      in stress_indicators)"

definition analyze_motion_data :: "motion_rates \<Rightarrow> bool" where
  "analyze_motion_data motion =
     (let is_stressed = (analyze_motion_data_indicators motion \<ge> 1) in is_stressed)"

subsection \<open>Binary64 arithmetic\<close>

text \<open>
  A Python \<^verbatim>\<open>float\<close> is an IEEE 754 binary64 number, and every literal and every arithmetic
  operation delivers the exact result rounded to the nearest binary64 number, ties to the
  even significand. A finite binary64 number is an integer multiple of \<open>2^(e - 52)\<close> of
  magnitude below \<open>2^(e + 1)\<close>, with \<open>e \<ge> -1022\<close>; below \<open>2^(-1022)\<close> the spacing stays
  \<open>2^(-1074)\<close>. Overflow to infinity is not modelled: the values rounded here do not exceed 1.
\<close>

text \<open>The integer nearest to \<open>t\<close>, the even one of the two when \<open>t\<close> is half-way.\<close>

definition round_half_even :: "real \<Rightarrow> int" where
  "round_half_even t =
     (let n = \<lfloor>t\<rfloor>; r = t - of_int n
      in if r < 1 / 2 then n else if 1 / 2 < r then n + 1 else if even n then n else n + 1)"

text \<open>The exponent of the binade of \<open>x\<close>, and the spacing of the binary64 numbers in it.\<close>

definition binary64_exponent :: "real \<Rightarrow> int" where
  "binary64_exponent x = max (- 1022) \<lfloor>log 2 \<bar>x\<bar>\<rfloor>"

definition binary64_ulp :: "real \<Rightarrow> real" where
  "binary64_ulp x = 2 powr real_of_int (binary64_exponent x - 52)"

definition binary64_round :: "real \<Rightarrow> real" where
  "binary64_round x =
     (if x = 0 then 0 else real_of_int (round_half_even (x / binary64_ulp x)) * binary64_ulp x)"

text \<open>
  Line 77 of \<^verbatim>\<open>whatsappfinal.py\<close>,
  \<^verbatim>\<open>combined_level = (audio_stress_level * 0.4) + (motion_stress_level * 0.6)\<close>, as binary64
  arithmetic evaluates it: the two literals, the two products and the sum are each rounded.
  The line applies no clamp, and neither does any later line before the value is returned.
\<close>

definition combined_level_binary64 :: "real \<Rightarrow> real \<Rightarrow> real" where
  "combined_level_binary64 audio_stress_level motion_stress_level =
     binary64_round (binary64_round (audio_stress_level * binary64_round 0.4)
                     + binary64_round (motion_stress_level * binary64_round 0.6))"

subsection \<open>Reference definitions\<close>

text \<open>
  The definitions of this subsection are not translations of code. They write down the
  contracts of the specification (sections 4.1 to 4.3), so that the code can be compared with
  them.
\<close>

text \<open>\<open>clip01\<close>: the value clamped to the unit interval.\<close>

definition spec_clip01 :: "real \<Rightarrow> real" where
  "spec_clip01 x = (if x < 0 then 0 else if 1 < x then 1 else x)"

text \<open>The continuous clip-linear policy: \<open>clip01((raw_value - baseline) / range)\<close>.\<close>

definition spec_normalize :: "real \<Rightarrow> real \<Rightarrow> real \<Rightarrow> real" where
  "spec_normalize baseline width raw_value = spec_clip01 ((raw_value - baseline) / width)"

text \<open>The threshold policy: the indicator is true when the raw value exceeds the cutoff.\<close>

definition spec_indicator :: "real \<Rightarrow> real \<Rightarrow> bool" where
  "spec_indicator cutoff raw_value = (cutoff < raw_value)"

text \<open>\<open>IndicatorFusion.fuse\<close>: true iff the number of true indicators reaches the quorum.\<close>

definition spec_fuse :: "nat \<Rightarrow> bool list \<Rightarrow> bool" where
  "spec_fuse quorum indicators = (quorum \<le> length (filter (\<lambda>b. b) indicators))"


section \<open>Properties\<close>

subsection \<open>Helper facts\<close>

lemma combined_level_eq:
  "combined_level_of (analyze_combined_stress self d v m) = v * 0.4 + m * 0.6"
  by (simp add: analyze_combined_stress_def combined_level_of_def Let_def)

lemma combined_description:
  "combined_description_of (analyze_combined_stress self d v m)
     = description_of (combined_level_of (analyze_combined_stress self d v m))"
  by (simp add: analyze_combined_stress_def combined_description_of_def combined_level_of_def Let_def)

lemma decision_thresholds:
  "is_panic_of (analyze_combined_stress (IntegratedStressDetector_init\<lparr>results := res\<rparr>) d v m)
     = (0.7 \<le> combined_level_of
                (analyze_combined_stress (IntegratedStressDetector_init\<lparr>results := res\<rparr>) d v m))"
  "is_high_stress_of (analyze_combined_stress (IntegratedStressDetector_init\<lparr>results := res\<rparr>) d v m)
     = (0.5 \<le> combined_level_of
                (analyze_combined_stress (IntegratedStressDetector_init\<lparr>results := res\<rparr>) d v m))"
  by (simp_all add: analyze_combined_stress_def is_panic_of_def is_high_stress_of_def
      combined_level_of_def IntegratedStressDetector_init_def Let_def)

lemma py_min_max_clip: "py_min 1 (py_max 0 x) = spec_clip01 x"
  by (simp add: py_min_def py_max_def spec_clip01_def)

lemma normalize_piecewise:
  "0 < r \<Longrightarrow>
   spec_normalize b r x = (if x \<le> b then 0 else if b + r \<le> x then 1 else (x - b) / r)"
  by (auto simp: spec_normalize_def spec_clip01_def field_simps)

lemma pitch_stress_normalize: "pitch_stress f = spec_normalize 130 50 (pitch_mean f)"
  by (simp add: pitch_stress_def spec_normalize_def py_min_max_clip)

lemma energy_stress_normalize: "energy_stress f = spec_normalize 0.5 0.5 (energy_mean f)"
  by (simp add: energy_stress_def spec_normalize_def py_min_max_clip)

lemma zcr_stress_normalize: "zcr_stress f = spec_normalize 0.08 0.12 (zcr_mean f)"
  by (simp add: zcr_stress_def spec_normalize_def py_min_max_clip)

lemma spectral_stress_normalize:
  "spectral_stress f = spec_normalize 1800 700 (spectral_centroid_mean f)"
  by (simp add: spectral_stress_def spec_normalize_def py_min_max_clip)

lemma detect_stress_level:
  "fst (snd (IntegratedStressDetector_detect_stress (Inr (Some f)))) =
     (pitch_stress f + energy_stress f + zcr_stress f + spectral_stress f) / 4"
  by (simp add: IntegratedStressDetector_detect_stress_def Let_def)

lemma detect_stress_failed:
  "IntegratedStressDetector_detect_stress (Inl e) = (False, 0, ''Error in stress detection'')"
  "IntegratedStressDetector_detect_stress (Inr None) = (False, 0, ''No audio features detected'')"
  by (simp_all add: IntegratedStressDetector_detect_stress_def)

text \<open>
  On the class as it is written the extraction always raises, so the method returns the
  error triple for every recording.
\<close>

lemma detect_stress_as_written:
  "IntegratedStressDetector_detect_stress extract_features_as_written
     = (False, 0, ''Error in stress detection'')"
  by (simp add: extract_features_as_written_def detect_stress_failed)

lemma handle_stress_detection_eq:
  "handle_stress_detection res b location =
     (res\<lparr>r_location_data := location\<rparr>,
      Get_location_by_geocoder # (case location of Some l \<Rightarrow> [Open_google_maps l] | None \<Rightarrow> []))"
  by (simp add: handle_stress_detection_def Let_def split: option.split)

lemma run_detection_calls:
  "snd (run_detection self extraction (m, mdesc) location) =
     (let a = IntegratedStressDetector_detect_stress extraction;
          t = analyze_combined_stress self (fst a) (fst (snd a)) m
      in if is_panic_of t then
           [Handle_stress_detection True, Get_location_by_geocoder]
             @ (case location of Some l \<Rightarrow> [Open_google_maps l] | None \<Rightarrow> [])
         else if is_high_stress_of t then
           [Handle_stress_detection False, Get_location_by_geocoder]
             @ (case location of Some l \<Rightarrow> [Open_google_maps l] | None \<Rightarrow> [])
         else [])"
  by (simp add: run_detection_def Let_def is_panic_of_def is_high_stress_of_def
      handle_stress_detection_eq analyze_combined_stress_def case_prod_beta)

lemma run_detection_results:
  "fst (run_detection self extraction (m, mdesc) location) =
     (let a = IntegratedStressDetector_detect_stress extraction;
          t = analyze_combined_stress self (fst a) (fst (snd a)) m;
          res = (results self)
            \<lparr> r_audio_stress_detected := fst a,
              r_motion_stress_detected := (m > motion_detector_stress_threshold self),
              r_audio_stress_level := fst (snd a),
              r_motion_stress_level := m,
              r_combined_stress_level := combined_level_of t,
              r_panic_detected := is_panic_of t \<rparr>
      in if is_panic_of t \<or> is_high_stress_of t then res\<lparr>r_location_data := location\<rparr> else res)"
  by (simp add: run_detection_def Let_def is_panic_of_def is_high_stress_of_def
      handle_stress_detection_eq combined_level_of_def analyze_combined_stress_def case_prod_beta)

lemma rate_total: "rate c d = Inr (if 0 < d then real_of_int c / d else 0)"
  by (simp add: rate_def py_truediv_def)

lemma indicators_sum:
  "detect_stress_indicators f =
     (if pitch_mean f > 150 then 1 else 0) + (if energy_mean f > 0.7 then 1 else 0)
     + (if zcr_mean f > 0.1 then 1 else 0) + (if spectral_centroid_mean f > 2000 then 1 else 0)"
  by (simp add: detect_stress_indicators_def Let_def)

lemma motion_indicators_sum:
  "analyze_motion_data_indicators r =
     (if mouse_movement_rate r > 10 then 1 else 0) + (if mouse_click_rate r > 2 then 1 else 0)
     + (if key_press_rate r > 5 then 1 else 0)"
  by (simp add: analyze_motion_data_indicators_def Let_def)

subsection \<open>Binary64 rounding\<close>

text \<open>
  Rounding is monotone on the non-negative numbers, moves a number by at most half the
  spacing of its binade, and leaves binary64 numbers unchanged; the literals of line 77 and
  the literal \<^verbatim>\<open>0.9\<close> round to the fractions given.
\<close>

lemma rhe_upper: "real_of_int (round_half_even t) \<le> t + 1 / 2"
  unfolding round_half_even_def Let_def by (auto; linarith)

lemma rhe_lower: "t - 1 / 2 \<le> real_of_int (round_half_even t)"
  unfolding round_half_even_def Let_def by (auto; linarith)

lemma rhe_of_int [simp]: "round_half_even (real_of_int n) = n"
  unfolding round_half_even_def Let_def by simp

lemma rhe_numeral [simp]: "round_half_even (numeral k) = numeral k"
  using rhe_of_int [of "numeral k"] by simp

lemma rhe_zero [simp]: "round_half_even 0 = 0"
  using rhe_of_int [of 0] by simp

lemma rhe_mono: assumes "s \<le> t" shows "round_half_even s \<le> round_half_even t"
proof (cases "\<lfloor>s\<rfloor> = \<lfloor>t\<rfloor>")
  case True
  then show ?thesis using assms unfolding round_half_even_def Let_def by auto
next
  case False
  with assms have lt: "\<lfloor>s\<rfloor> < \<lfloor>t\<rfloor>" using floor_mono [OF assms] by linarith
  have "round_half_even s \<le> \<lfloor>s\<rfloor> + 1" unfolding round_half_even_def Let_def by auto
  moreover have "\<lfloor>t\<rfloor> \<le> round_half_even t" unfolding round_half_even_def Let_def by auto
  ultimately show ?thesis using lt by linarith
qed

lemma ulp_pos: "0 < binary64_ulp x"
  by (simp add: binary64_ulp_def)

lemma ulp_times_53: "2 powr 53 * binary64_ulp x = 2 powr real_of_int (binary64_exponent x + 1)"
  unfolding binary64_ulp_def powr_add [symmetric] by (simp add: add.commute)

lemma ulp_times_52: "2 powr 52 * binary64_ulp x = 2 powr real_of_int (binary64_exponent x)"
  unfolding binary64_ulp_def powr_add [symmetric] by simp

lemma exponent_mono: "0 < x \<Longrightarrow> x \<le> y \<Longrightarrow> binary64_exponent x \<le> binary64_exponent y"
  unfolding binary64_exponent_def
  by (intro max.mono order_refl floor_mono) simp

lemma below_next_binade:
  assumes "0 < x" shows "x < 2 powr real_of_int (binary64_exponent x + 1)"
proof -
  have "log 2 x < real_of_int (\<lfloor>log 2 x\<rfloor> + 1)" by linarith
  also have "\<dots> \<le> real_of_int (binary64_exponent x + 1)"
    using assms by (simp add: binary64_exponent_def)
  finally have "log 2 x < real_of_int (binary64_exponent x + 1)" .
  then show ?thesis using assms by (simp add: log_less_iff)
qed

lemma above_binade:
  assumes "0 < y" and "- 1022 < binary64_exponent y"
  shows "2 powr real_of_int (binary64_exponent y) \<le> y"
proof -
  from assms have e: "binary64_exponent y = \<lfloor>log 2 y\<rfloor>"
    by (simp add: binary64_exponent_def max_def split: if_splits)
  have "real_of_int \<lfloor>log 2 y\<rfloor> \<le> log 2 y" by simp
  then show ?thesis unfolding e using assms(1) le_log_iff [of 2 y "real_of_int \<lfloor>log 2 y\<rfloor>"]
    by simp
qed

lemma round_le_next_binade:
  assumes "0 < x" shows "binary64_round x \<le> 2 powr real_of_int (binary64_exponent x + 1)"
proof -
  let ?u = "binary64_ulp x"
  have "x / ?u < 2 powr real_of_int (binary64_exponent x + 1) / ?u"
    using below_next_binade [OF assms] ulp_pos [of x] by (simp add: divide_strict_right_mono)
  also have "\<dots> = 2 powr 53"
    by (simp add: binary64_ulp_def powr_diff [symmetric])
  also have "\<dots> = real_of_int (2 ^ 53)" by (simp add: powr_numeral)
  finally have "x / ?u \<le> real_of_int (2 ^ 53)" by simp
  from rhe_mono [OF this] have "round_half_even (x / ?u) \<le> 2 ^ 53" by simp
  then have "real_of_int (round_half_even (x / ?u)) \<le> 2 powr 53"
    by (simp add: powr_numeral)
  then have "real_of_int (round_half_even (x / ?u)) * ?u \<le> 2 powr 53 * ?u"
    using ulp_pos by (simp add: mult_right_mono)
  also have "\<dots> = 2 powr real_of_int (binary64_exponent x + 1)"
    by (rule ulp_times_53)
  finally show ?thesis using assms by (simp add: binary64_round_def)
qed

lemma round_ge_binade:
  assumes "0 < y" and "- 1022 < binary64_exponent y"
  shows "2 powr real_of_int (binary64_exponent y) \<le> binary64_round y"
proof -
  let ?u = "binary64_ulp y"
  have "2 powr 52 = 2 powr real_of_int (binary64_exponent y) / ?u"
    by (simp add: binary64_ulp_def powr_diff [symmetric])
  also have "\<dots> \<le> y / ?u"
    using above_binade [OF assms] ulp_pos [of y] by (simp add: divide_right_mono)
  finally have "real_of_int (2 ^ 52) \<le> y / ?u" by (simp add: powr_numeral)
  from rhe_mono [OF this] have "2 ^ 52 \<le> round_half_even (y / ?u)" by simp
  then have "2 powr 52 \<le> real_of_int (round_half_even (y / ?u))"
    by (simp add: powr_numeral)
  then have "2 powr 52 * ?u \<le> real_of_int (round_half_even (y / ?u)) * ?u"
    using ulp_pos by (simp add: mult_right_mono)
  moreover have "2 powr 52 * ?u = 2 powr real_of_int (binary64_exponent y)"
    by (rule ulp_times_52)
  ultimately show ?thesis using assms by (simp add: binary64_round_def)
qed

lemma binary64_round_mono:
  assumes "0 \<le> x" and "x \<le> y"
  shows "binary64_round x \<le> binary64_round y"
proof (cases "x = 0")
  case True
  have "0 \<le> binary64_round y"
  proof (cases "y = 0")
    case True then show ?thesis by (simp add: binary64_round_def)
  next
    case False
    with assms True have "0 < y" by simp
    then have "0 \<le> y / binary64_ulp y" using ulp_pos [of y] by simp
    from rhe_mono [OF this]
    have "0 \<le> round_half_even (y / binary64_ulp y)" by simp
    then show ?thesis using ulp_pos [of y] by (simp add: binary64_round_def)
  qed
  with True show ?thesis by (simp add: binary64_round_def)
next
  case False
  with assms have x: "0 < x" and y: "0 < y" by simp_all
  show ?thesis
  proof (cases "binary64_exponent x = binary64_exponent y")
    case True
    then have u: "binary64_ulp x = binary64_ulp y" by (simp add: binary64_ulp_def)
    have "x / binary64_ulp y \<le> y / binary64_ulp y"
      using assms ulp_pos [of y] by (simp add: divide_right_mono)
    from rhe_mono [OF this] show ?thesis
      using x y u ulp_pos [of y] by (simp add: binary64_round_def mult_right_mono)
  next
    case False
    with exponent_mono [OF x assms(2)]
    have lt: "binary64_exponent x + 1 \<le> binary64_exponent y" by linarith
    then have n: "- 1022 < binary64_exponent y"
      unfolding binary64_exponent_def [of x] by linarith
    have "binary64_round x \<le> 2 powr real_of_int (binary64_exponent x + 1)"
      by (rule round_le_next_binade [OF x])
    also have "\<dots> \<le> 2 powr real_of_int (binary64_exponent y)"
      using lt by (intro powr_mono) simp_all
    also have "\<dots> \<le> binary64_round y"
      by (rule round_ge_binade [OF y n])
    finally show ?thesis .
  qed
qed


lemma binary64_round_zero [simp]: "binary64_round 0 = 0"
  by (simp add: binary64_round_def)

lemma binary64_round_nonneg: "0 \<le> x \<Longrightarrow> 0 \<le> binary64_round x"
  using binary64_round_mono [of 0 x] by simp

lemma exponent_eq:
  assumes "0 < x" and "2 powr real_of_int e \<le> x" and "x < 2 powr real_of_int (e + 1)"
    and "- 1022 \<le> e"
  shows "binary64_exponent x = e"
proof -
  have "\<lfloor>log 2 x\<rfloor> = e"
    using assms by (subst floor_log_eq_powr_iff) simp_all
  then show ?thesis using assms by (simp add: binary64_exponent_def)
qed

lemma binary64_round_eval:
  assumes "0 < x" and "2 powr real_of_int e \<le> x" and "x < 2 powr real_of_int (e + 1)"
    and "- 1022 \<le> e"
  shows "binary64_round x =
           real_of_int (round_half_even (x / 2 powr real_of_int (e - 52)))
             * 2 powr real_of_int (e - 52)"
  using assms(1) unfolding binary64_round_def binary64_ulp_def exponent_eq [OF assms] by simp

lemma literal_0_4: "binary64_round 0.4 = 7205759403792794 / 2 ^ 54"
  by (subst binary64_round_eval [where e = "- 2"]) (simp_all add: round_half_even_def powr_neg_numeral)

lemma literal_0_6: "binary64_round 0.6 = 5404319552844595 / 2 ^ 53"
  by (subst binary64_round_eval [where e = "- 1"]) (simp_all add: round_half_even_def powr_neg_numeral)

lemma round_0_4_fixed: "binary64_round (7205759403792794 / 2 ^ 54) = 7205759403792794 / 2 ^ 54"
  by (subst binary64_round_eval [where e = "- 2"]) (simp_all add: round_half_even_def powr_neg_numeral)

lemma round_0_6_fixed: "binary64_round (5404319552844595 / 2 ^ 53) = 5404319552844595 / 2 ^ 53"
  by (subst binary64_round_eval [where e = "- 1"]) (simp_all add: round_half_even_def powr_neg_numeral)

lemma round_1_fixed: "binary64_round 1 = 1"
  by (subst binary64_round_eval [where e = 0]) (simp_all add: round_half_even_def powr_neg_numeral)


lemma round_error: "\<bar>binary64_round x - x\<bar> \<le> binary64_ulp x / 2"
proof (cases "x = 0")
  case True
  then show ?thesis using ulp_pos [of x] by simp
next
  case False
  let ?u = "binary64_ulp x"
  let ?t = "x / ?u"
  have u: "0 < ?u" by (rule ulp_pos)
  have "\<bar>real_of_int (round_half_even ?t) - ?t\<bar> \<le> 1 / 2"
    using rhe_upper [of ?t] rhe_lower [of ?t] by linarith
  then have "\<bar>real_of_int (round_half_even ?t) - ?t\<bar> * ?u \<le> 1 / 2 * ?u"
    using u by (intro mult_right_mono) simp_all
  moreover have "\<bar>real_of_int (round_half_even ?t) - ?t\<bar> * ?u
                   = \<bar>real_of_int (round_half_even ?t) * ?u - x\<bar>"
  proof -
    have "\<bar>real_of_int (round_half_even ?t) - ?t\<bar> * ?u
            = \<bar>(real_of_int (round_half_even ?t) - ?t) * ?u\<bar>"
      using u by (simp add: abs_mult)
    also have "(real_of_int (round_half_even ?t) - ?t) * ?u
                 = real_of_int (round_half_even ?t) * ?u - x"
      using u by (simp add: left_diff_distrib)
    finally show ?thesis .
  qed
  ultimately show ?thesis using False by (simp add: binary64_round_def)
qed

lemma round_power_of_two:
  assumes "- 1022 \<le> k"
  shows "binary64_round (2 powr real_of_int k) = 2 powr real_of_int k"
proof -
  let ?x = "2 powr real_of_int k"
  have q: "?x / 2 powr real_of_int (k - 52) = real_of_int (2 ^ 52)"
    by (simp add: powr_diff [symmetric])
  have "binary64_round ?x =
          real_of_int (round_half_even (?x / 2 powr real_of_int (k - 52)))
            * 2 powr real_of_int (k - 52)"
    by (rule binary64_round_eval) (use assms in \<open>simp_all\<close>)
  also have "\<dots> = real_of_int (2 ^ 52) * 2 powr real_of_int (k - 52)"
    unfolding q rhe_of_int ..
  also have "\<dots> = 2 powr 52 * 2 powr real_of_int (k - 52)"
    by simp
  also have "\<dots> = ?x"
    unfolding powr_add [symmetric] by simp
  finally show ?thesis .
qed

lemma round_error_below:
  assumes "0 \<le> x" and "x \<le> 2 powr real_of_int k" and "- 1021 \<le> k"
  shows "\<bar>binary64_round x - x\<bar> \<le> 2 powr real_of_int (k - 54)"
proof -
  consider "x = 0" | "x = 2 powr real_of_int k" | "0 < x" "x < 2 powr real_of_int k"
    using assms by fastforce
  then show ?thesis
  proof cases
    case 1
    then show ?thesis by simp
  next
    case 2
    then show ?thesis using round_power_of_two [of k] assms(3) by simp
  next
    case 3
    have "log 2 x < real_of_int k"
      using 3 by (simp add: log_less_iff)
    then have "\<lfloor>log 2 x\<rfloor> \<le> k - 1" by linarith
    then have "binary64_exponent x \<le> k - 1"
      using 3 assms(3) by (simp add: binary64_exponent_def)
    then have "binary64_ulp x \<le> 2 powr real_of_int (k - 53)"
      unfolding binary64_ulp_def by (intro powr_mono) simp_all
    then have "binary64_ulp x / 2 \<le> 2 powr real_of_int (k - 53) / 2" by simp
    also have "\<dots> = 2 powr real_of_int (k - 53) * 2 powr (- 1)"
      by simp
    also have "\<dots> = 2 powr real_of_int (k - 54)"
      unfolding powr_add [symmetric] by simp
    finally show ?thesis using round_error [of x] by linarith
  qed
qed

lemma round_error_below_half:
  assumes "0 \<le> x" and "x \<le> 1 / 2"
  shows "\<bar>binary64_round x - x\<bar> \<le> 1 / 2 ^ 55"
  using round_error_below [of x "- 1"] assms by (simp add: powr_neg_numeral)

lemma round_error_below_one:
  assumes "0 \<le> x" and "x \<le> 1"
  shows "\<bar>binary64_round x - x\<bar> \<le> 1 / 2 ^ 54"
  using round_error_below [of x 0] assms by (simp add: powr_neg_numeral)

lemma product_rounded:
  assumes "0 \<le> v" and "v \<le> 1" and "0 \<le> c" and "binary64_round c = c"
  shows "0 \<le> binary64_round (v * c)" and "binary64_round (v * c) \<le> c"
proof -
  have "0 \<le> v * c" "v * c \<le> c"
    using assms by (simp_all add: mult_left_le_one_le)
  then show "0 \<le> binary64_round (v * c)" "binary64_round (v * c) \<le> c"
    using binary64_round_nonneg [of "v * c"] binary64_round_mono [of "v * c" c] assms(4)
    by simp_all
qed

lemma fusion_error_arith:
  fixes R p q v m :: real
  assumes "\<bar>p - v * (7205759403792794 / 18014398509481984)\<bar> \<le> 1 / 36028797018963968"
    and "\<bar>q - m * (5404319552844595 / 9007199254740992)\<bar> \<le> 1 / 18014398509481984"
    and "\<bar>R - (p + q)\<bar> \<le> 1 / 18014398509481984"
    and "0 \<le> v" and "v \<le> 1" and "0 \<le> m" and "m \<le> 1"
  shows "\<bar>R - (v * (4 / 10) + m * (6 / 10))\<bar> \<le> 1 / 4503599627370496"
  using assms by linarith

lemma literal_0_9: "binary64_round 0.9 = 8106479329266893 / 2 ^ 53"
  by (subst binary64_round_eval [where e = "- 1"]) (simp_all add: round_half_even_def powr_neg_numeral)

lemma product_0_9_0_4:
  "binary64_round (8106479329266893 / 2 ^ 53 * (7205759403792794 / 2 ^ 54))
     = 6485183463413515 / 2 ^ 54"
  by (subst binary64_round_eval [where e = "- 2"]) (simp_all add: round_half_even_def powr_neg_numeral)

lemma round_0_36_fixed:
  "binary64_round (6485183463413515 / 2 ^ 54) = 6485183463413515 / 2 ^ 54"
  by (subst binary64_round_eval [where e = "- 2"]) (simp_all add: round_half_even_def powr_neg_numeral)

lemma combined_level_binary64_0_9_0:
  "combined_level_binary64 (8106479329266893 / 2 ^ 53) 0 = 6485183463413515 / 2 ^ 54"
  unfolding combined_level_binary64_def literal_0_4 literal_0_6 mult_zero_left
    binary64_round_zero add_0_right product_0_9_0_4 round_0_36_fixed ..

lemma combined_level_binary64_bounds:
  assumes "0 \<le> v" and "v \<le> 1" and "0 \<le> m" and "m \<le> 1"
  shows "\<bar>combined_level_binary64 v m - (v * 0.4 + m * 0.6)\<bar> \<le> 1 / 2 ^ 52
       \<and> 0 \<le> combined_level_binary64 v m
       \<and> combined_level_binary64 v m \<le> 1"
proof -
  let ?a = "7205759403792794 / 2 ^ 54 :: real"
  let ?b = "5404319552844595 / 2 ^ 53 :: real"
  let ?p = "binary64_round (v * ?a)"
  let ?q = "binary64_round (m * ?b)"
  have p: "0 \<le> ?p" "?p \<le> ?a"
    using product_rounded [OF assms(1,2) _ round_0_4_fixed] by simp_all
  have q: "0 \<le> ?q" "?q \<le> ?b"
    using product_rounded [OF assms(3,4) _ round_0_6_fixed] by simp_all
  have s: "0 \<le> ?p + ?q" "?p + ?q \<le> 1"
    using p q by simp_all
  have r: "0 \<le> binary64_round (?p + ?q)" "binary64_round (?p + ?q) \<le> 1"
    using binary64_round_nonneg [OF s(1)] binary64_round_mono [OF s] round_1_fixed
    by simp_all
  have va: "0 \<le> v * ?a" "v * ?a \<le> 1 / 2"
    using assms(1,2) by simp_all
  have mb: "0 \<le> m * ?b" "m * ?b \<le> 1"
    using assms(3,4) by simp_all
  have e1: "\<bar>?p - v * ?a\<bar> \<le> 1 / 2 ^ 55"
    by (rule round_error_below_half [OF va])
  have e2: "\<bar>?q - m * ?b\<bar> \<le> 1 / 2 ^ 54"
    by (rule round_error_below_one [OF mb])
  have e3: "\<bar>binary64_round (?p + ?q) - (?p + ?q)\<bar> \<le> 1 / 2 ^ 54"
    by (rule round_error_below_one [OF s])
  have "\<bar>binary64_round (?p + ?q) - (v * 0.4 + m * 0.6)\<bar> \<le> 1 / 2 ^ 52"
    using fusion_error_arith [of ?p v ?q m "binary64_round (?p + ?q)"] e1 e2 e3 assms
    by simp
  then show ?thesis
    using r unfolding combined_level_binary64_def literal_0_4 literal_0_6 by blast
qed


subsection \<open>The trigger decision\<close>

text \<open>
  Claim C1. The decision is taken from the number, not from the band name. For a detector with
  the thresholds set by the constructor and every pair of levels, \<^verbatim>\<open>is_panic\<close> holds iff the
  combined level is at least 0.7 and \<^verbatim>\<open>is_high_stress\<close> iff it is at least 0.5; a combined
  level in \<open>[0.7, 0.9)\<close> is described as High Stress and is a panic all the same. In a run,
  \<^verbatim>\<open>_handle_stress_detection\<close> is called, and with it the location is resolved, iff the
  high-stress or the panic condition holds; the call has argument \<^verbatim>\<open>True\<close> iff the panic
  condition holds; the map is opened iff moreover a location was found.
\<close>

theorem trigger_decision_from_level:
  "(let self = IntegratedStressDetector_init\<lparr>results := res\<rparr>;
        t = analyze_combined_stress self d v m;
        level = combined_level_of t
    in (is_panic_of t \<longleftrightarrow> 0.7 \<le> level)
     \<and> (is_high_stress_of t \<longleftrightarrow> 0.5 \<le> level)
     \<and> (0.7 \<le> level \<and> level < 0.9 \<longrightarrow>
          combined_description_of t = ''High Stress'' \<and> is_panic_of t))
   \<and> (let self = IntegratedStressDetector_init\<lparr>results := res\<rparr>;
          a = IntegratedStressDetector_detect_stress extraction;
          t = analyze_combined_stress self (fst a) (fst (snd a)) motion_level;
          level = combined_level_of t;
          calls = snd (run_detection self extraction (motion_level, motion_description) location)
      in ((\<exists>b. Handle_stress_detection b \<in> set calls) \<longleftrightarrow> is_high_stress_of t \<or> is_panic_of t)
       \<and> (Get_location_by_geocoder \<in> set calls \<longleftrightarrow> is_high_stress_of t \<or> is_panic_of t)
       \<and> ((\<exists>l. Open_google_maps l \<in> set calls) \<longleftrightarrow>
            (is_high_stress_of t \<or> is_panic_of t) \<and> location \<noteq> None)
       \<and> (Handle_stress_detection True \<in> set calls \<longleftrightarrow> is_panic_of t)
       \<and> (0.7 \<le> level \<and> level < 0.9 \<longrightarrow>
            combined_description_of t = ''High Stress''
            \<and> Handle_stress_detection True \<in> set calls))"
  unfolding Let_def run_detection_calls decision_thresholds combined_description
  by (auto simp: description_of_def split: option.splits)

theorem trigger_decision_from_level_witness:
  "(let self = (IntegratedStressDetector_init :: string detector)
                 \<lparr>results := results IntegratedStressDetector_init\<rparr>;
        f = \<lparr>pitch_mean = 180, energy_mean = 1, zcr_mean = 0.08, spectral_centroid_mean = 2080\<rparr>;
        a = IntegratedStressDetector_detect_stress (Inr (Some f));
        t = analyze_combined_stress self (fst a) (fst (snd a)) 0.8
    in fst (snd a) = 0.6 \<and> combined_level_of t = 0.72
     \<and> 0.7 \<le> combined_level_of t \<and> combined_level_of t < 0.9
     \<and> combined_description_of t = ''High Stress'' \<and> is_panic_of t
     \<and> snd (run_detection self (Inr (Some f)) (0.8, ''motion'') (Some ''12.9,77.6''))
         = [Handle_stress_detection True, Get_location_by_geocoder, Open_google_maps ''12.9,77.6''])"
proof -
  let ?f = "\<lparr>pitch_mean = 180, energy_mean = 1, zcr_mean = 0.08, spectral_centroid_mean = 2080\<rparr>"
  let ?self = "(IntegratedStressDetector_init :: string detector)
                 \<lparr>results := results IntegratedStressDetector_init\<rparr>"
  let ?a = "IntegratedStressDetector_detect_stress (Inr (Some ?f))"
  let ?t = "analyze_combined_stress ?self (fst ?a) (fst (snd ?a)) 0.8"
  have l: "fst (snd ?a) = 0.6"
    unfolding detect_stress_level
    by (simp add: pitch_stress_def energy_stress_def zcr_stress_def
        spectral_stress_def py_min_def py_max_def)
  have c: "combined_level_of ?t = 0.72"
    unfolding combined_level_eq l by simp
  have range: "0.7 \<le> combined_level_of ?t \<and> combined_level_of ?t < 0.9"
    unfolding c by simp
  from trigger_decision_from_level
      [of "results (IntegratedStressDetector_init :: string detector)"
          "fst ?a" "fst (snd ?a)" "0.8" "Inr (Some ?f)" "0.8" "''motion''" "Some ''12.9,77.6''"]
  have d: "combined_description_of ?t = ''High Stress''" and p: "is_panic_of ?t"
    using range unfolding Let_def by blast+
  have calls: "snd (run_detection ?self (Inr (Some ?f)) (0.8, ''motion'') (Some ''12.9,77.6''))
         = [Handle_stress_detection True, Get_location_by_geocoder, Open_google_maps ''12.9,77.6'']"
    unfolding run_detection_calls Let_def using p by simp
  show ?thesis
    unfolding Let_def using l c range d p calls by blast
qed

subsection \<open>Weighted fusion\<close>

text \<open>
  Claim C2, as the code has it. In binary64 arithmetic the combined level is the rounded
  evaluation of \<open>voice * 0.4 + motion * 0.6\<close>, not the exact value: for the voice level
  written \<^verbatim>\<open>0.9\<close> (the binary64 number \<open>8106479329266893 / 2^53\<close>) and motion level 0 the code
  returns \<open>6485183463413515 / 2^54\<close>, printed \<^verbatim>\<open>0.36000000000000004\<close>, which is not
  \<open>voice * 0.4 + motion * 0.6\<close>.
\<close>

theorem weighted_fusion_not_exact_counterexample:
  "combined_level_binary64 (8106479329266893 / 2 ^ 53) 0 = 6485183463413515 / 2 ^ 54
   \<and> combined_level_binary64 (8106479329266893 / 2 ^ 53) 0
        \<noteq> (8106479329266893 / 2 ^ 53) * 0.4 + 0 * 0.6"
  unfolding combined_level_binary64_0_9_0 by simp

text \<open>
  Claim C2, amended. For voice and motion levels in \<open>[0, 1]\<close> the combined level that the
  code computes in binary64 arithmetic differs from \<open>voice * 0.4 + motion * 0.6\<close> by at most
  \<open>2^(-52)\<close>, and it lies in \<open>[0, 1]\<close> under this rounding. No clamp is applied: the range
  follows from the bounds on the inputs.
\<close>

theorem weighted_fusion_binary64_error_and_range:
  assumes "0 \<le> v" and "v \<le> 1" and "0 \<le> m" and "m \<le> 1"
  shows "\<bar>combined_level_binary64 v m - (v * 0.4 + m * 0.6)\<bar> \<le> 1 / 2 ^ 52
       \<and> 0 \<le> combined_level_binary64 v m
       \<and> combined_level_binary64 v m \<le> 1"
  using assms by (rule combined_level_binary64_bounds)

theorem weighted_fusion_binary64_error_and_range_witness:
  "(0::real) \<le> 8106479329266893 / 2 ^ 53 \<and> (8106479329266893 / 2 ^ 53 :: real) \<le> 1
   \<and> \<bar>combined_level_binary64 (8106479329266893 / 2 ^ 53) 0
        - ((8106479329266893 / 2 ^ 53) * 0.4 + 0 * 0.6)\<bar> \<le> 1 / 2 ^ 52
   \<and> 0 \<le> combined_level_binary64 (8106479329266893 / 2 ^ 53) 0
   \<and> combined_level_binary64 (8106479329266893 / 2 ^ 53) 0 \<le> 1"
proof -
  have h: "(0::real) \<le> 8106479329266893 / 2 ^ 53" "(8106479329266893 / 2 ^ 53 :: real) \<le> 1"
    "(0::real) \<le> 0" "(0::real) \<le> 1"
    by simp_all
  from weighted_fusion_binary64_error_and_range [OF h] h show ?thesis by blast
qed

text \<open>
  The exact-arithmetic model of \<^verbatim>\<open>analyze_combined_stress\<close> is therefore within \<open>2^(-52)\<close> of
  the level that the code computes. Outside \<open>[0, 1]\<close> nothing bounds the level: levels 2 and 2
  give 2 in the exact model.
\<close>

lemma combined_level_binary64_near_model:
  assumes "0 \<le> v" and "v \<le> 1" and "0 \<le> m" and "m \<le> 1"
  shows "\<bar>combined_level_binary64 v m - combined_level_of (analyze_combined_stress self d v m)\<bar>
           \<le> 1 / 2 ^ 52"
  using combined_level_binary64_bounds [OF assms] unfolding combined_level_eq by blast

lemma combined_level_unclamped:
  "combined_level_of (analyze_combined_stress self d 2 2) = 2"
  unfolding combined_level_eq by simp

text \<open>
  Claim C8. The combined level is monotonically non-decreasing in the voice level and in the
  motion level (raising either, or both, never lowers it), it is 0 at \<open>(0, 0)\<close> and 1 at
  \<open>(1, 1)\<close>.
\<close>

theorem weighted_fusion_monotone:
  assumes "v \<le> v'" and "m \<le> m'"
  shows "combined_level_of (analyze_combined_stress self d v m)
           \<le> combined_level_of (analyze_combined_stress self d' v' m')
       \<and> combined_level_of (analyze_combined_stress self d 0 0) = 0
       \<and> combined_level_of (analyze_combined_stress self d 1 1) = 1"
  using assms by (simp add: combined_level_eq add_mono)

theorem weighted_fusion_monotone_witness:
  "(0.2::real) \<le> 0.5 \<and> (0.1::real) \<le> 0.1
   \<and> combined_level_of
        (analyze_combined_stress (IntegratedStressDetector_init :: string detector) False 0.2 0.1)
     \<le> combined_level_of
        (analyze_combined_stress (IntegratedStressDetector_init :: string detector) False 0.5 0.1)"
  using weighted_fusion_monotone
    [of "0.2" "0.5" "0.1" "0.1" "IntegratedStressDetector_init :: string detector" False False]
  by simp

text \<open>
  Claim C9. The argument \<^verbatim>\<open>audio_stress_detected\<close> has no influence on the result of
  \<^verbatim>\<open>analyze_combined_stress\<close>: two calls that agree on both levels return the same tuple,
  whatever the two boolean arguments are.
\<close>

theorem analyze_combined_stress_ignores_detected_flag:
  "analyze_combined_stress self d1 audio_level motion_level =
   analyze_combined_stress self d2 audio_level motion_level"
  by (simp add: analyze_combined_stress_def)

subsection \<open>Severity bands\<close>

text \<open>
  Claim C3. On \<open>[0, 1]\<close> the band name is Calm exactly below 0.3, Mild Stress exactly on
  \<open>[0.3, 0.5)\<close>, Moderate Stress exactly on \<open>[0.5, 0.7)\<close>, High Stress exactly on
  \<open>[0.7, 0.9)\<close> and Panic exactly on \<open>[0.9, 1]\<close>: five different names on five adjoining
  intervals. The levels 0, 0.3 and 1 are Calm, Mild Stress and Panic. Both
  \<^verbatim>\<open>analyze_combined_stress\<close> and the method \<^verbatim>\<open>detect_stress\<close> name their level this way.
\<close>

theorem severity_bands_partition:
  assumes "0 \<le> level" and "level \<le> 1"
  shows "(description_of level = ''Calm'' \<longleftrightarrow> level < 0.3)
       \<and> (description_of level = ''Mild Stress'' \<longleftrightarrow> 0.3 \<le> level \<and> level < 0.5)
       \<and> (description_of level = ''Moderate Stress'' \<longleftrightarrow> 0.5 \<le> level \<and> level < 0.7)
       \<and> (description_of level = ''High Stress'' \<longleftrightarrow> 0.7 \<le> level \<and> level < 0.9)
       \<and> (description_of level = ''Panic'' \<longleftrightarrow> 0.9 \<le> level \<and> level \<le> 1.0)
       \<and> distinct [''Calm'', ''Mild Stress'', ''Moderate Stress'', ''High Stress'', ''Panic'']
       \<and> description_of 0.0 = ''Calm''
       \<and> description_of 0.3 = ''Mild Stress''
       \<and> description_of 1.0 = ''Panic''
       \<and> combined_description_of (analyze_combined_stress self d v m)
           = description_of (combined_level_of (analyze_combined_stress self d v m))
       \<and> snd (snd (IntegratedStressDetector_detect_stress (Inr (Some f))))
           = description_of (fst (snd (IntegratedStressDetector_detect_stress (Inr (Some f)))))"
proof -
  have bands: "(description_of level = ''Calm'' \<longleftrightarrow> level < 0.3)
       \<and> (description_of level = ''Mild Stress'' \<longleftrightarrow> 0.3 \<le> level \<and> level < 0.5)
       \<and> (description_of level = ''Moderate Stress'' \<longleftrightarrow> 0.5 \<le> level \<and> level < 0.7)
       \<and> (description_of level = ''High Stress'' \<longleftrightarrow> 0.7 \<le> level \<and> level < 0.9)
       \<and> (description_of level = ''Panic'' \<longleftrightarrow> 0.9 \<le> level \<and> level \<le> 1.0)"
    using assms by (simp add: description_of_def)
  have names: "distinct [''Calm'', ''Mild Stress'', ''Moderate Stress'', ''High Stress'', ''Panic'']"
    by simp
  have points: "description_of 0.0 = ''Calm'' \<and> description_of 0.3 = ''Mild Stress''
       \<and> description_of 1.0 = ''Panic''"
    by (simp add: description_of_def)
  have named: "snd (snd (IntegratedStressDetector_detect_stress (Inr (Some f))))
           = description_of (fst (snd (IntegratedStressDetector_detect_stress (Inr (Some f)))))"
    by (simp add: IntegratedStressDetector_detect_stress_def Let_def)
  from bands names points named combined_description [of self d v m]
  show ?thesis by blast
qed

theorem severity_bands_partition_witness:
  "(0::real) \<le> 0.72 \<and> (0.72::real) \<le> 1
   \<and> description_of 0.72 = ''High Stress''
   \<and> description_of 0.72 \<noteq> ''Panic''"
proof -
  have h: "(0::real) \<le> 0.72" "(0.72::real) \<le> 1" by simp_all
  from severity_bands_partition [OF h]
  have "description_of 0.72 = ''High Stress'' \<longleftrightarrow> (0.7::real) \<le> 0.72 \<and> (0.72::real) < 0.9"
    and "description_of 0.72 = ''Panic'' \<longleftrightarrow> (0.9::real) \<le> 0.72 \<and> (0.72::real) \<le> 1.0"
    by blast+
  then show ?thesis using h by simp
qed

subsection \<open>Indicator counting\<close>

text \<open>
  Claim C4. The audio detector declares stress iff at least 2 of its 4 checks succeed, and
  the activity detector iff at least 1 of its 3 checks succeeds; with exactly 2 successful
  audio checks the verdict is stressed, with exactly 1 it is not stressed.
\<close>

theorem indicator_quorum:
  "detect_stress (Inr (Some f)) =
     spec_fuse 2 [pitch_mean f > 150, energy_mean f > 0.7, zcr_mean f > 0.1,
                  spectral_centroid_mean f > 2000]
   \<and> analyze_motion_data r =
     spec_fuse 1 [mouse_movement_rate r > 10, mouse_click_rate r > 2, key_press_rate r > 5]
   \<and> (detect_stress_indicators f = 2 \<longrightarrow> detect_stress (Inr (Some f)))
   \<and> (detect_stress_indicators f = 1 \<longrightarrow> \<not> detect_stress (Inr (Some f)))"
  by (simp add: detect_stress_def analyze_motion_data_def spec_fuse_def indicators_sum
      motion_indicators_sum Let_def)

theorem indicator_quorum_witness:
  "detect_stress_indicators
     \<lparr>pitch_mean = 200, energy_mean = 0.9, zcr_mean = 0.05, spectral_centroid_mean = 1000\<rparr> = 2
   \<and> detect_stress (Inr (Some
     \<lparr>pitch_mean = 200, energy_mean = 0.9, zcr_mean = 0.05, spectral_centroid_mean = 1000\<rparr>))
   \<and> detect_stress_indicators
     \<lparr>pitch_mean = 200, energy_mean = 0.3, zcr_mean = 0.05, spectral_centroid_mean = 1000\<rparr> = 1
   \<and> \<not> detect_stress (Inr (Some
     \<lparr>pitch_mean = 200, energy_mean = 0.3, zcr_mean = 0.05, spectral_centroid_mean = 1000\<rparr>))"
proof -
  let ?two = "\<lparr>pitch_mean = 200, energy_mean = 0.9, zcr_mean = 0.05, spectral_centroid_mean = 1000\<rparr>"
  let ?one = "\<lparr>pitch_mean = 200, energy_mean = 0.3, zcr_mean = 0.05, spectral_centroid_mean = 1000\<rparr>"
  have two: "detect_stress_indicators ?two = 2"
    by (simp add: indicators_sum)
  have one: "detect_stress_indicators ?one = 1"
    by (simp add: indicators_sum)
  from indicator_quorum [of ?two] two have "detect_stress (Inr (Some ?two))"
    by blast
  moreover from indicator_quorum [of ?one] one have "\<not> detect_stress (Inr (Some ?one))"
    by blast
  ultimately show ?thesis using two one by blast
qed

text \<open>
  Claim C5. A check counts iff the raw value is strictly above its cutoff: the counter of the
  audio detector is the number of pairs (cutoff, value) among (150, pitch mean), (0.7, energy
  mean), (0.1, zero-crossing rate), (2000, spectral centroid) with cutoff < value, and the
  counter of the activity detector the same for (10, movement rate), (2, click rate),
  (5, key-press rate). Values that sit exactly on all the cutoffs give counter 0 and the
  verdict not stressed.
\<close>

theorem indicators_strict_cutoffs:
  "detect_stress_indicators f =
     (\<Sum>(cutoff, raw_value) \<leftarrow> [(150, pitch_mean f), (0.7, energy_mean f), (0.1, zcr_mean f),
                                (2000, spectral_centroid_mean f)].
        if spec_indicator cutoff raw_value then 1 else 0)
   \<and> analyze_motion_data_indicators r =
     (\<Sum>(cutoff, raw_value) \<leftarrow> [(10, mouse_movement_rate r), (2, mouse_click_rate r),
                                (5, key_press_rate r)].
        if spec_indicator cutoff raw_value then 1 else 0)
   \<and> detect_stress_indicators
        (f\<lparr>pitch_mean := 150, energy_mean := 0.7, zcr_mean := 0.1, spectral_centroid_mean := 2000\<rparr>) = 0
   \<and> \<not> detect_stress
        (Inr (Some (f\<lparr>pitch_mean := 150, energy_mean := 0.7, zcr_mean := 0.1,
                       spectral_centroid_mean := 2000\<rparr>)))
   \<and> analyze_motion_data_indicators
        (r\<lparr>mouse_movement_rate := 10, mouse_click_rate := 2, key_press_rate := 5\<rparr>) = 0
   \<and> \<not> analyze_motion_data
        (r\<lparr>mouse_movement_rate := 10, mouse_click_rate := 2, key_press_rate := 5\<rparr>)"
  by (simp add: indicators_sum motion_indicators_sum spec_indicator_def detect_stress_def
      analyze_motion_data_def)

subsection \<open>Clip-linear normalisation\<close>

text \<open>
  Lines 230 to 258 of the method, for an extraction that delivers a feature vector: each of
  the four contributions is \<open>clip01((raw_value - baseline) / range)\<close> for its pair, pitch mean
  (130, 50), energy mean (0.5, 0.5), zero-crossing rate (0.08, 0.12), spectral centroid
  (1800, 700). It is 0 up to the baseline, 1 from baseline + range on and
  \<open>(raw_value - baseline) / range\<close> between them, and the level is the mean of the four.
\<close>

lemma clip_linear_contributions:
  "pitch_stress f = spec_normalize 130 50 (pitch_mean f)
   \<and> energy_stress f = spec_normalize 0.5 0.5 (energy_mean f)
   \<and> zcr_stress f = spec_normalize 0.08 0.12 (zcr_mean f)
   \<and> spectral_stress f = spec_normalize 1800 700 (spectral_centroid_mean f)
   \<and> pitch_stress f = (if pitch_mean f \<le> 130 then 0 else if 130 + 50 \<le> pitch_mean f then 1
                        else (pitch_mean f - 130) / 50)
   \<and> energy_stress f = (if energy_mean f \<le> 0.5 then 0 else if 0.5 + 0.5 \<le> energy_mean f then 1
                        else (energy_mean f - 0.5) / 0.5)
   \<and> zcr_stress f = (if zcr_mean f \<le> 0.08 then 0 else if 0.08 + 0.12 \<le> zcr_mean f then 1
                        else (zcr_mean f - 0.08) / 0.12)
   \<and> spectral_stress f = (if spectral_centroid_mean f \<le> 1800 then 0
                        else if 1800 + 700 \<le> spectral_centroid_mean f then 1
                        else (spectral_centroid_mean f - 1800) / 700)
   \<and> fst (snd (IntegratedStressDetector_detect_stress (Inr (Some f)))) =
       (spec_normalize 130 50 (pitch_mean f) + spec_normalize 0.5 0.5 (energy_mean f)
        + spec_normalize 0.08 0.12 (zcr_mean f)
        + spec_normalize 1800 700 (spectral_centroid_mean f)) / 4"
proof -
  have p: "pitch_stress f = (if pitch_mean f \<le> 130 then 0 else if 130 + 50 \<le> pitch_mean f then 1
                        else (pitch_mean f - 130) / 50)"
    unfolding pitch_stress_normalize by (rule normalize_piecewise) simp
  have e: "energy_stress f = (if energy_mean f \<le> 0.5 then 0 else if 0.5 + 0.5 \<le> energy_mean f then 1
                        else (energy_mean f - 0.5) / 0.5)"
    unfolding energy_stress_normalize by (rule normalize_piecewise) simp
  have z: "zcr_stress f = (if zcr_mean f \<le> 0.08 then 0 else if 0.08 + 0.12 \<le> zcr_mean f then 1
                        else (zcr_mean f - 0.08) / 0.12)"
    unfolding zcr_stress_normalize by (rule normalize_piecewise) simp
  have s: "spectral_stress f = (if spectral_centroid_mean f \<le> 1800 then 0
                        else if 1800 + 700 \<le> spectral_centroid_mean f then 1
                        else (spectral_centroid_mean f - 1800) / 700)"
    unfolding spectral_stress_normalize by (rule normalize_piecewise) simp
  have l: "fst (snd (IntegratedStressDetector_detect_stress (Inr (Some f)))) =
       (spec_normalize 130 50 (pitch_mean f) + spec_normalize 0.5 0.5 (energy_mean f)
        + spec_normalize 0.08 0.12 (zcr_mean f)
        + spec_normalize 1800 700 (spectral_centroid_mean f)) / 4"
    unfolding detect_stress_level
    by (simp only: pitch_stress_normalize energy_stress_normalize zcr_stress_normalize
        spectral_stress_normalize)
  from p e z s l show ?thesis
    using pitch_stress_normalize energy_stress_normalize zcr_stress_normalize
      spectral_stress_normalize by blast
qed

text \<open>
  Claim C6, on the class as it is written. The method calls \<^verbatim>\<open>self.extract_features\<close>, which
  the class does not define, so the extraction raises for every recording and the lines
  that compute the contributions are not reached. For a recording whose descriptors are
  pitch mean 180, energy mean 1, zero-crossing rate 0.2 and spectral centroid 2500, each
  clip-linear contribution is 1 and so is their mean, the level these lines would return;
  the method returns not stressed, level 0 and the error description.
\<close>

theorem clip_linear_policy_unreached_as_written:
  "(let f = \<lparr>pitch_mean = 180, energy_mean = 1, zcr_mean = 0.2, spectral_centroid_mean = 2500\<rparr>
    in spec_normalize 130 50 (pitch_mean f) = 1
     \<and> spec_normalize 0.5 0.5 (energy_mean f) = 1
     \<and> spec_normalize 0.08 0.12 (zcr_mean f) = 1
     \<and> spec_normalize 1800 700 (spectral_centroid_mean f) = 1
     \<and> fst (snd (IntegratedStressDetector_detect_stress (Inr (Some f)))) = 1)
   \<and> IntegratedStressDetector_detect_stress extract_features_as_written
       = (False, 0, ''Error in stress detection'')
   \<and> fst (snd (IntegratedStressDetector_detect_stress extract_features_as_written)) \<noteq> 1"
proof -
  let ?f = "\<lparr>pitch_mean = 180, energy_mean = 1, zcr_mean = 0.2, spectral_centroid_mean = 2500\<rparr>"
  have n: "spec_normalize 130 50 (pitch_mean ?f) = 1"
    "spec_normalize 0.5 0.5 (energy_mean ?f) = 1"
    "spec_normalize 0.08 0.12 (zcr_mean ?f) = 1"
    "spec_normalize 1800 700 (spectral_centroid_mean ?f) = 1"
    by (simp_all add: spec_normalize_def spec_clip01_def)
  have l: "fst (snd (IntegratedStressDetector_detect_stress (Inr (Some ?f)))) = 1"
    unfolding detect_stress_level pitch_stress_normalize energy_stress_normalize
      zcr_stress_normalize spectral_stress_normalize n
    by simp
  have w: "IntegratedStressDetector_detect_stress extract_features_as_written
       = (False, 0, ''Error in stress detection'')"
    by (simp add: extract_features_as_written_def detect_stress_failed)
  then have d: "fst (snd (IntegratedStressDetector_detect_stress extract_features_as_written)) \<noteq> 1"
    by simp
  from n l w d show ?thesis
    unfolding Let_def by blast
qed

subsection \<open>Failed feature extraction\<close>



text \<open>
  On the class as it is written every run is such a run: the audio level is 0, the combined
  level is \<open>motion * 0.6\<close>, and a motion level of at most 1 cannot reach the panic threshold.
\<close>

lemma run_detection_as_written:
  assumes "motion_level \<le> 1"
  shows "r_audio_stress_level
           (fst (run_detection (IntegratedStressDetector_init\<lparr>results := res\<rparr>)
                   extract_features_as_written (motion_level, motion_description) location)) = 0
       \<and> r_combined_stress_level
           (fst (run_detection (IntegratedStressDetector_init\<lparr>results := res\<rparr>)
                   extract_features_as_written (motion_level, motion_description) location))
           = motion_level * 0.6
       \<and> \<not> r_panic_detected
           (fst (run_detection (IntegratedStressDetector_init\<lparr>results := res\<rparr>)
                   extract_features_as_written (motion_level, motion_description) location))"
  unfolding run_detection_results Let_def detect_stress_as_written decision_thresholds
    combined_level_eq
  using assms by simp

subsection \<open>Activity rates\<close>

text \<open>
  Claim C10. \<^verbatim>\<open>stop_motion_tracking\<close> returns for every duration, without a division error:
  each rate is count / duration when the duration is positive and 0 otherwise, so a duration
  that is zero or negative gives three rates 0.
\<close>

theorem rates_division_guarded:
  "(\<exists>r. stop_motion_tracking md now = Inr r
        \<and> mouse_movement_rate r =
            (if 0 < now - start_time md
             then real_of_int (mouse_movements md) / (now - start_time md) else 0)
        \<and> mouse_click_rate r =
            (if 0 < now - start_time md
             then real_of_int (mouse_clicks md) / (now - start_time md) else 0)
        \<and> key_press_rate r =
            (if 0 < now - start_time md
             then real_of_int (key_presses md) / (now - start_time md) else 0))
   \<and> (now - start_time md \<le> 0 \<longrightarrow>
        (\<exists>r. stop_motion_tracking md now = Inr r
           \<and> mouse_movement_rate r = 0 \<and> mouse_click_rate r = 0 \<and> key_press_rate r = 0))"
  by (simp add: stop_motion_tracking_def rate_total Let_def motion_data.extend_def)

theorem rates_division_guarded_witness:
  "(7::real) - 7 \<le> 0
   \<and> (\<exists>r. stop_motion_tracking
            \<lparr>mouse_movements = 60, mouse_clicks = 5, key_presses = 10, start_time = 7,
             end_time = None\<rparr> 7 = Inr r
         \<and> mouse_movement_rate r = 0 \<and> mouse_click_rate r = 0 \<and> key_press_rate r = 0)"
proof -
  let ?md = "\<lparr>mouse_movements = 60, mouse_clicks = 5, key_presses = 10, start_time = 7,
             end_time = None\<rparr>"
  have h: "(7::real) - start_time ?md \<le> 0" by simp
  from rates_division_guarded [of ?md 7] h
  have "\<exists>r. stop_motion_tracking ?md 7 = Inr r
         \<and> mouse_movement_rate r = 0 \<and> mouse_click_rate r = 0 \<and> key_press_rate r = 0"
    by blast
  then show ?thesis by simp
qed

end
